theory Spec2Isabelle
  imports Main "HOL-Library.Word" "HOL-Library.List_Lexorder"
begin

unbundle bit_operations_syntax

section \<open>Value types (types/types.go)\<close>

type_synonym ValueType = "8 word"

definition AnyType :: ValueType where "AnyType = 0x0"
definition NullValue :: ValueType where "NullValue = 0x80"
definition BoolValue :: ValueType where "BoolValue = 0x81"
definition IntegerValue :: ValueType where "IntegerValue = 0x90"
definition DoubleValue :: ValueType where "DoubleValue = 0xA0"
definition TextValue :: ValueType where "TextValue = 0xC0"
definition BlobValue :: ValueType where "BlobValue = 0xD0"
definition ArrayValue :: ValueType where "ArrayValue = 0xE0"
definition DocumentValue :: ValueType where "DocumentValue = 0xF0"

definition IsNumber :: "ValueType \<Rightarrow> bool" where
  "IsNumber t \<longleftrightarrow> t = IntegerValue \<or> t = DoubleValue"

definition IsAny :: "ValueType \<Rightarrow> bool" where
  "IsAny t \<longleftrightarrow> t = AnyType"

section \<open>Go's float64\<close>

text \<open>
  A float64 is a finite value \<open>(-1)^s * m * 2^e\<close> (kept with \<open>m < 2^53\<close>,
  \<open>-1074 \<le> e \<le> 971\<close>, and \<open>2^52 \<le> m\<close> unless \<open>e = -1074\<close>), an infinity or NaN.
  The operations round to nearest, ties to even, as IEEE-754 binary64 does.
\<close>

datatype float64 = Finite bool int int | Infinity bool | NaN

function nbits :: "int \<Rightarrow> nat" where
  "nbits n = (if n \<le> 0 then 0 else Suc (nbits (n div 2)))"
  by pat_completeness auto
termination
  by (relation "measure nat") auto

text \<open>\<open>f64_round s n d\<close> is the float64 nearest to \<open>(-1)^s * n / d\<close>, for \<open>0 \<le> n\<close> and \<open>0 < d\<close>.\<close>

definition f64_round :: "bool \<Rightarrow> int \<Rightarrow> int \<Rightarrow> float64" where
  "f64_round s n d =
     (if n = 0 then Finite s 0 (- 1074)
      else
        let e1 = int (nbits n) - int (nbits d) - 53;
            e2 = (if 2 ^ 53 \<le> (n * 2 ^ nat (- e1)) div (d * 2 ^ nat e1) then e1 + 1 else e1);
            e = max e2 (- 1074);
            num = n * 2 ^ nat (- e);
            den = d * 2 ^ nat e;
            q = num div den;
            r = num mod den;
            q' = (if den < 2 * r \<or> (2 * r = den \<and> odd q) then q + 1 else q);
            m = (if q' = 2 ^ 53 then 2 ^ 52 else q');
            e' = (if q' = 2 ^ 53 then e + 1 else e)
        in if 971 < e' then Infinity s else Finite s m e')"

definition f64_scaled :: "bool \<Rightarrow> int \<Rightarrow> int \<Rightarrow> float64" where
  "f64_scaled s n e = f64_round s (n * 2 ^ nat e) (2 ^ nat (- e))"

definition f64_of_int :: "int \<Rightarrow> float64" where
  "f64_of_int i = f64_round (i < 0) \<bar>i\<bar> 1"

definition f64_signed :: "bool \<Rightarrow> int \<Rightarrow> int" where
  "f64_signed s m = (if s then - m else m)"

definition f64_neg :: "float64 \<Rightarrow> float64" where
  "f64_neg x = (case x of Finite s m e \<Rightarrow> Finite (\<not> s) m e | Infinity s \<Rightarrow> Infinity (\<not> s) | NaN \<Rightarrow> NaN)"

fun f64_add :: "float64 \<Rightarrow> float64 \<Rightarrow> float64" where
  "f64_add NaN _ = NaN"
| "f64_add _ NaN = NaN"
| "f64_add (Infinity s) (Infinity t) = (if s = t then Infinity s else NaN)"
| "f64_add (Infinity s) (Finite _ _ _) = Infinity s"
| "f64_add (Finite _ _ _) (Infinity t) = Infinity t"
| "f64_add (Finite s1 m1 e1) (Finite s2 m2 e2) =
     (let e = min e1 e2;
          v = f64_signed s1 m1 * 2 ^ nat (e1 - e) + f64_signed s2 m2 * 2 ^ nat (e2 - e)
      in if v = 0 then Finite (s1 \<and> s2) 0 (- 1074)
         else f64_scaled (v < 0) \<bar>v\<bar> e)"

definition f64_sub :: "float64 \<Rightarrow> float64 \<Rightarrow> float64" where
  "f64_sub x y = f64_add x (f64_neg y)"

fun f64_mul :: "float64 \<Rightarrow> float64 \<Rightarrow> float64" where
  "f64_mul NaN _ = NaN"
| "f64_mul _ NaN = NaN"
| "f64_mul (Infinity s) (Infinity t) = Infinity (s \<noteq> t)"
| "f64_mul (Infinity s) (Finite t m e) = (if m = 0 then NaN else Infinity (s \<noteq> t))"
| "f64_mul (Finite s m e) (Infinity t) = (if m = 0 then NaN else Infinity (s \<noteq> t))"
| "f64_mul (Finite s1 m1 e1) (Finite s2 m2 e2) = f64_scaled (s1 \<noteq> s2) (m1 * m2) (e1 + e2)"

fun f64_div :: "float64 \<Rightarrow> float64 \<Rightarrow> float64" where
  "f64_div NaN _ = NaN"
| "f64_div _ NaN = NaN"
| "f64_div (Infinity s) (Infinity t) = NaN"
| "f64_div (Infinity s) (Finite t m e) = Infinity (s \<noteq> t)"
| "f64_div (Finite s m e) (Infinity t) = Finite (s \<noteq> t) 0 (- 1074)"
| "f64_div (Finite s1 m1 e1) (Finite s2 m2 e2) =
     (if m2 = 0 then (if m1 = 0 then NaN else Infinity (s1 \<noteq> s2))
      else f64_round (s1 \<noteq> s2) (m1 * 2 ^ nat (e1 - e2)) (m2 * 2 ^ nat (e2 - e1)))"

text \<open>math.Mod: the remainder has the sign of \<open>x\<close> and is computed exactly.\<close>

fun math_Mod :: "float64 \<Rightarrow> float64 \<Rightarrow> float64" where
  "math_Mod NaN _ = NaN"
| "math_Mod _ NaN = NaN"
| "math_Mod (Infinity s) _ = NaN"
| "math_Mod (Finite s m e) (Infinity t) = Finite s m e"
| "math_Mod (Finite s1 m1 e1) (Finite s2 m2 e2) =
     (if m2 = 0 then NaN
      else let e = min e1 e2
           in f64_scaled s1 ((m1 * 2 ^ nat (e1 - e)) mod (m2 * 2 ^ nat (e2 - e))) e)"

definition math_IsNaN :: "float64 \<Rightarrow> bool" where
  "math_IsNaN x \<longleftrightarrow> x = NaN"

text \<open>The comparison \<open>x == 0\<close> on float64: both zeros are equal to 0, NaN is not.\<close>

definition f64_is_zero :: "float64 \<Rightarrow> bool" where
  "f64_is_zero x = (case x of Finite s m e \<Rightarrow> m = 0 | _ \<Rightarrow> False)"

text \<open>
  The conversion \<open>int64(f)\<close> truncates towards zero. Outside the range of int64 Go leaves
  the result to the implementation; the value here is the one amd64 produces.
\<close>

definition f64_to_int64 :: "float64 \<Rightarrow> 64 word" where
  "f64_to_int64 x =
     (case x of
        Finite s m e \<Rightarrow>
          (let t = f64_signed s (if 0 \<le> e then m * 2 ^ nat e else m div 2 ^ nat (- e))
           in if - (2 ^ 63) \<le> t \<and> t < 2 ^ 63 then word_of_int t else 0x8000000000000000)
      | _ \<Rightarrow> 0x8000000000000000)"

section \<open>Values (document/value.go)\<close>

text \<open>
  A value is the struct \<open>{tp, v}\<close>; \<open>v\<close> is an \<open>interface{}\<close>, which is nil or holds a
  Go value together with its dynamic type. An Array is a sequence of values and a
  Document a sequence of named values.
\<close>

datatype iface =
    INil
  | IBool bool
  | IInt64 "64 word"
  | IFloat64 float64
  | IBytes "8 word list"
  | IString string
  | IArray "val list"
  | IDocument "(string \<times> val) list"
and val = Value (tp: ValueType) (V: iface)

datatype error =
    Panic
  | ErrValueNotFound
  | ErrFieldNotFound
  | errStop
  | ErrCannotCast ValueType ValueType
  | ErrSyntax string
  | ErrTableNotFound
  | ErrIndexNotFound
  | ErrSequenceNotFound
  | AlreadyExistsError string
  | ErrReadOnlyTable
  | ErrConstraintRequiresIndex string
  | ErrOther string

definition NewNullValue :: val where
  "NewNullValue = Value NullValue INil"

definition NewBoolValue :: "bool \<Rightarrow> val" where
  "NewBoolValue x = Value BoolValue (IBool x)"

definition NewIntegerValue :: "64 word \<Rightarrow> val" where
  "NewIntegerValue x = Value IntegerValue (IInt64 x)"

definition NewDoubleValue :: "float64 \<Rightarrow> val" where
  "NewDoubleValue x = Value DoubleValue (IFloat64 x)"

definition NewBlobValue :: "8 word list \<Rightarrow> val" where
  "NewBlobValue x = Value BlobValue (IBytes x)"

definition NewTextValue :: "string \<Rightarrow> val" where
  "NewTextValue x = Value TextValue (IString x)"

definition NewArrayValue :: "val list \<Rightarrow> val" where
  "NewArrayValue a = Value ArrayValue (IArray a)"

definition NewDocumentValue :: "(string \<times> val) list \<Rightarrow> val" where
  "NewDocumentValue d = Value DocumentValue (IDocument d)"

definition NewEmptyValue :: "ValueType \<Rightarrow> val" where
  "NewEmptyValue t = Value t INil"

definition NewValueWith :: "ValueType \<Rightarrow> iface \<Rightarrow> val" where
  "NewValueWith t x = Value t x"

text \<open>
  Modelled from the spec: \<open>Array.GetByIndex\<close> and \<open>Document.Iterate\<close> (the buffers that
  implement Array and Document are not among the sources). An Array is an ordered
  sequence of values, a Document an ordered sequence of (field name, value) pairs, and
  iteration stops at the first error the callback returns.
\<close>

definition GetByIndex :: "val list \<Rightarrow> nat \<Rightarrow> error + val" where
  "GetByIndex a i = (if i < length a then Inr (a ! i) else Inl ErrValueNotFound)"

fun Iterate :: "(string \<times> val) list \<Rightarrow> (string \<Rightarrow> val \<Rightarrow> error option) \<Rightarrow> error option" where
  "Iterate [] fn = None"
| "Iterate ((k, x) # d) fn = (case fn k x of Some e \<Rightarrow> Some e | None \<Rightarrow> Iterate d fn)"

text \<open>
  \<open>IsZeroValue\<close> and \<open>IsTruthy\<close> return a pair (bool, error); \<open>None\<close> stands for a
  panic (a failed type assertion).
\<close>

definition IsZeroValue :: "val \<Rightarrow> (bool \<times> error option) option" where
  "IsZeroValue v =
     (if tp v = BoolValue then Some (V v = IBool False, None)
      else if tp v = IntegerValue then Some (V v = IInt64 0, None)
      else if tp v = DoubleValue then
        Some ((case V v of IFloat64 f \<Rightarrow> f64_is_zero f | _ \<Rightarrow> False), None)
      else if tp v = BlobValue then Some (V v = INil, None)
      else if tp v = TextValue then Some (V v = IString [], None)
      else if tp v = ArrayValue then
        (case V v of
           IArray a \<Rightarrow>
             (case GetByIndex a 0 of
                Inl err \<Rightarrow> if err = ErrValueNotFound then Some (True, None) else Some (False, Some err)
              | Inr _ \<Rightarrow> Some (False, None))
         | _ \<Rightarrow> None)
      else if tp v = DocumentValue then
        (case V v of
           IDocument d \<Rightarrow>
             (case Iterate d (\<lambda>_ _. Some errStop) of
                None \<Rightarrow> Some (True, None)
              | Some err \<Rightarrow> if err = errStop then Some (False, None) else Some (False, Some err))
         | _ \<Rightarrow> None)
      else Some (False, None))"

definition IsTruthy :: "val \<Rightarrow> (bool \<times> error option) option" where
  "IsTruthy v =
     (if tp v = NullValue then Some (False, None)
      else case IsZeroValue v of
             None \<Rightarrow> None
           | Some (b, err) \<Rightarrow> Some (\<not> b, err))"


section \<open>Casts used by arithmetic (document/cast.go)\<close>

text \<open>
  \<open>strconv.ParseInt\<close> and \<open>strconv.ParseFloat\<close> belong to Go's standard library; the
  casts take them as a parameter.
\<close>

record strconv =
  ParseInt :: "string \<Rightarrow> error + 64 word"
  ParseFloat :: "string \<Rightarrow> error + float64"

definition CastAsInteger :: "strconv \<Rightarrow> val \<Rightarrow> error + val" where
  "CastAsInteger sc v =
     (if tp v = IntegerValue then Inr v
      else if tp v = BoolValue then
        (case V v of
           IBool b \<Rightarrow> if b then Inr (NewIntegerValue 1) else Inr (NewIntegerValue 0)
         | _ \<Rightarrow> Inl Panic)
      else if tp v = DoubleValue then
        (case V v of
           IFloat64 f \<Rightarrow> Inr (NewIntegerValue (f64_to_int64 f))
         | _ \<Rightarrow> Inl Panic)
      else if tp v = TextValue then
        (case V v of
           IString s \<Rightarrow>
             (case ParseInt sc s of
                Inr i \<Rightarrow> Inr (NewIntegerValue i)
              | Inl intErr \<Rightarrow>
                  (case ParseFloat sc s of
                     Inl _ \<Rightarrow> Inl intErr
                   | Inr f \<Rightarrow> Inr (NewIntegerValue (f64_to_int64 f))))
         | _ \<Rightarrow> Inl Panic)
      else Inl (ErrCannotCast (tp v) IntegerValue))"

definition CastAsDouble :: "strconv \<Rightarrow> val \<Rightarrow> error + val" where
  "CastAsDouble sc v =
     (if tp v = DoubleValue then Inr v
      else if tp v = IntegerValue then
        (case V v of
           IInt64 i \<Rightarrow> Inr (NewDoubleValue (f64_of_int (sint i)))
         | _ \<Rightarrow> Inl Panic)
      else if tp v = TextValue then
        (case V v of
           IString s \<Rightarrow>
             (case ParseFloat sc s of
                Inl err \<Rightarrow> Inl err
              | Inr f \<Rightarrow> Inr (NewDoubleValue f))
         | _ \<Rightarrow> Inl Panic)
      else Inl (ErrCannotCast (tp v) DoubleValue))"

section \<open>Arithmetic (document/value.go)\<close>

text \<open>
  Go's \<open>/\<close> and \<open>%\<close> on int64 truncate towards zero and wrap around at
  \<open>MinInt64 / -1\<close>. Both are only reached with a divisor that is not zero.
\<close>

definition int64_quo :: "64 word \<Rightarrow> 64 word \<Rightarrow> 64 word" where
  "int64_quo a b = word_of_int (sgn (sint a) * sgn (sint b) * (\<bar>sint a\<bar> div \<bar>sint b\<bar>))"

definition int64_rem :: "64 word \<Rightarrow> 64 word \<Rightarrow> 64 word" where
  "int64_rem a b = word_of_int (sgn (sint a) * (\<bar>sint a\<bar> mod \<bar>sint b\<bar>))"

definition int64_less :: "64 word \<Rightarrow> 64 word \<Rightarrow> bool" where
  "int64_less a b \<longleftrightarrow> sint a < sint b"

text \<open>The switch of \<open>calculateIntegers\<close> on the two int64 operands.\<close>

definition integers_switch :: "64 word \<Rightarrow> 64 word \<Rightarrow> char \<Rightarrow> error + val" where
  "integers_switch xa xb0 operator =
     (if operator = CHR ''-'' \<or> operator = CHR ''+'' then
        (let xb = (if operator = CHR ''-'' then - xb0 else xb0);
             xr = xa + xb
         in if int64_less xa xr \<noteq> int64_less 0 xb
            then Inr (NewDoubleValue (f64_add (f64_of_int (sint xa)) (f64_of_int (sint xb))))
            else Inr (NewIntegerValue xr))
      else if operator = CHR ''*'' then
        (if xa = 0 \<or> xb0 = 0 then Inr (NewIntegerValue 0)
         else
           let xr = xa * xb0
           in if int64_less xr 0 = (int64_less xa 0 \<noteq> int64_less xb0 0) \<and> int64_quo xr xb0 = xa
              then Inr (NewIntegerValue xr)
              else Inr (NewDoubleValue (f64_mul (f64_of_int (sint xa)) (f64_of_int (sint xb0)))))
      else if operator = CHR ''/'' then
        (if xb0 = 0 then Inr NewNullValue else Inr (NewIntegerValue (int64_quo xa xb0)))
      else if operator = CHR ''%'' then
        (if xb0 = 0 then Inr NewNullValue else Inr (NewIntegerValue (int64_rem xa xb0)))
      else if operator = CHR ''&'' then Inr (NewIntegerValue (xa AND xb0))
      else if operator = CHR ''|'' then Inr (NewIntegerValue (xa OR xb0))
      else if operator = CHR ''^'' then Inr (NewIntegerValue (xa XOR xb0))
      else Inl Panic)"

definition calculateIntegers :: "strconv \<Rightarrow> val \<Rightarrow> val \<Rightarrow> char \<Rightarrow> error + val" where
  "calculateIntegers sc a b operator =
     (case CastAsInteger sc a of
        Inl err \<Rightarrow> if err = Panic then Inl Panic else Inr NewNullValue
      | Inr ia \<Rightarrow>
          (case V ia of
             IInt64 xa \<Rightarrow>
               (case CastAsInteger sc b of
                  Inl err \<Rightarrow> if err = Panic then Inl Panic else Inr NewNullValue
                | Inr ib \<Rightarrow>
                    (case V ib of
                       IInt64 xb \<Rightarrow> integers_switch xa xb operator
                     | _ \<Rightarrow> Inl Panic))
           | _ \<Rightarrow> Inl Panic))"

definition floats_switch :: "float64 \<Rightarrow> float64 \<Rightarrow> char \<Rightarrow> error + val" where
  "floats_switch xa xb operator =
     (if operator = CHR ''+'' then Inr (NewDoubleValue (f64_add xa xb))
      else if operator = CHR ''-'' then Inr (NewDoubleValue (f64_sub xa xb))
      else if operator = CHR ''*'' then Inr (NewDoubleValue (f64_mul xa xb))
      else if operator = CHR ''/'' then
        (if f64_is_zero xb then Inr NewNullValue else Inr (NewDoubleValue (f64_div xa xb)))
      else if operator = CHR ''%'' then
        (let md = math_Mod xa xb
         in if math_IsNaN md then Inr NewNullValue else Inr (NewDoubleValue md))
      else if operator = CHR ''&'' then
        Inr (NewIntegerValue (f64_to_int64 xa AND f64_to_int64 xb))
      else if operator = CHR ''|'' then
        Inr (NewIntegerValue (f64_to_int64 xa OR f64_to_int64 xb))
      else if operator = CHR ''^'' then
        Inr (NewIntegerValue (f64_to_int64 xa XOR f64_to_int64 xb))
      else Inl Panic)"

definition calculateFloats :: "strconv \<Rightarrow> val \<Rightarrow> val \<Rightarrow> char \<Rightarrow> error + val" where
  "calculateFloats sc a b operator =
     (case CastAsDouble sc a of
        Inl err \<Rightarrow> if err = Panic then Inl Panic else Inr NewNullValue
      | Inr fa \<Rightarrow>
          (case V fa of
             IFloat64 xa \<Rightarrow>
               (case CastAsDouble sc b of
                  Inl err \<Rightarrow> if err = Panic then Inl Panic else Inr NewNullValue
                | Inr fb \<Rightarrow>
                    (case V fb of
                       IFloat64 xb \<Rightarrow> floats_switch xa xb operator
                     | _ \<Rightarrow> Inl Panic))
           | _ \<Rightarrow> Inl Panic))"

definition calculateValues :: "strconv \<Rightarrow> val \<Rightarrow> val \<Rightarrow> char \<Rightarrow> error + val" where
  "calculateValues sc a b operator =
     (if tp a = NullValue \<or> tp b = NullValue then Inr NewNullValue
      else if tp a = BoolValue \<or> tp b = BoolValue then Inr NewNullValue
      else if IsNumber (tp a) \<and> IsNumber (tp b) then
        (if tp a = DoubleValue \<or> tp b = DoubleValue then calculateFloats sc a b operator
         else calculateIntegers sc a b operator)
      else Inr NewNullValue)"

definition Add :: "strconv \<Rightarrow> val \<Rightarrow> val \<Rightarrow> error + val" where
  "Add sc v1 v2 = calculateValues sc v1 v2 CHR ''+''"

definition Sub :: "strconv \<Rightarrow> val \<Rightarrow> val \<Rightarrow> error + val" where
  "Sub sc v1 v2 = calculateValues sc v1 v2 CHR ''-''"

definition Mul :: "strconv \<Rightarrow> val \<Rightarrow> val \<Rightarrow> error + val" where
  "Mul sc v1 v2 = calculateValues sc v1 v2 CHR ''*''"

definition Div :: "strconv \<Rightarrow> val \<Rightarrow> val \<Rightarrow> error + val" where
  "Div sc v1 v2 = calculateValues sc v1 v2 CHR ''/''"

definition Mod :: "strconv \<Rightarrow> val \<Rightarrow> val \<Rightarrow> error + val" where
  "Mod sc v1 v2 = calculateValues sc v1 v2 CHR ''%''"

definition BitwiseAnd :: "strconv \<Rightarrow> val \<Rightarrow> val \<Rightarrow> error + val" where
  "BitwiseAnd sc v1 v2 = calculateValues sc v1 v2 CHR ''&''"

definition BitwiseOr :: "strconv \<Rightarrow> val \<Rightarrow> val \<Rightarrow> error + val" where
  "BitwiseOr sc v1 v2 = calculateValues sc v1 v2 CHR ''|''"

definition BitwiseXor :: "strconv \<Rightarrow> val \<Rightarrow> val \<Rightarrow> error + val" where
  "BitwiseXor sc v1 v2 = calculateValues sc v1 v2 CHR ''^''"

section \<open>Comparison operators (sql/query/expr/comparison.go)\<close>

datatype Token = EQ | NEQ | GT | GTE | LT | LTE | IN | ILLEGAL

text \<open>
  The comparison methods of a value and the method \<open>simpleOperator.eval\<close>, which
  evaluates the two operands, are declared outside the sources: the operator carries its
  \<open>eval\<close>, and the comparisons are a parameter.
\<close>

record comparisons =
  IsEqual :: "val \<Rightarrow> val \<Rightarrow> bool \<times> error option"
  IsNotEqual :: "val \<Rightarrow> val \<Rightarrow> bool \<times> error option"
  IsGreaterThan :: "val \<Rightarrow> val \<Rightarrow> bool \<times> error option"
  IsGreaterThanOrEqual :: "val \<Rightarrow> val \<Rightarrow> bool \<times> error option"
  IsLesserThan :: "val \<Rightarrow> val \<Rightarrow> bool \<times> error option"
  IsLesserThanOrEqual :: "val \<Rightarrow> val \<Rightarrow> bool \<times> error option"

record 'ctx simpleOperator =
  eval :: "'ctx \<Rightarrow> val \<times> val \<times> error option"
  Tok :: Token

definition trueLitteral :: val where "trueLitteral = NewBoolValue True"
definition falseLitteral :: val where "falseLitteral = NewBoolValue False"
definition nullLitteral :: val where "nullLitteral = NewNullValue"

text \<open>\<open>None\<close> is the panic on an unknown token.\<close>

definition cmpOp_compare ::
  "comparisons \<Rightarrow> 'ctx simpleOperator \<Rightarrow> val \<Rightarrow> val \<Rightarrow> (bool \<times> error option) option" where
  "cmpOp_compare cmp op l r =
     (case Tok op of
        EQ \<Rightarrow> Some (IsEqual cmp l r)
      | NEQ \<Rightarrow> Some (IsNotEqual cmp l r)
      | GT \<Rightarrow> Some (IsGreaterThan cmp l r)
      | GTE \<Rightarrow> Some (IsGreaterThanOrEqual cmp l r)
      | LT \<Rightarrow> Some (IsLesserThan cmp l r)
      | LTE \<Rightarrow> Some (IsLesserThanOrEqual cmp l r)
      | _ \<Rightarrow> None)"

definition cmpOp_Eval ::
  "comparisons \<Rightarrow> 'ctx simpleOperator \<Rightarrow> 'ctx \<Rightarrow> (val \<times> error option) option" where
  "cmpOp_Eval cmp op ctx =
     (case eval op ctx of
        (v1, v2, Some err) \<Rightarrow> Some (falseLitteral, Some err)
      | (v1, v2, None) \<Rightarrow>
          if tp v1 = NullValue \<or> tp v2 = NullValue then Some (nullLitteral, None)
          else
            (case cmpOp_compare cmp op v1 v2 of
               None \<Rightarrow> None
             | Some (ok, err) \<Rightarrow>
                 if ok then Some (trueLitteral, err) else Some (falseLitteral, err)))"

section \<open>Ranges (package stream)\<close>

text \<open>
  Modelled from the spec: \<open>ValueType.IsZero\<close> (declared with the struct form of
  \<open>document.Value\<close>, which is not among the sources): \<open>0\<close> denotes Any, the absence of
  a type.
\<close>

definition IsZero :: "ValueType \<Rightarrow> bool" where
  "IsZero t \<longleftrightarrow> t = 0"

text \<open>
  \<open>bytes.Compare\<close> of Go's standard library: 0 if \<open>a = b\<close>, -1 if \<open>a\<close> is
  lexicographically less than \<open>b\<close>, and +1 otherwise.
\<close>

definition bytes_Compare :: "8 word list \<Rightarrow> 8 word list \<Rightarrow> int" where
  "bytes_Compare a b = (if a = b then 0 else if a < b then - 1 else 1)"

text \<open>A byte slice is nil (\<open>None\<close>) or a sequence of bytes.\<close>

record ValueRange =
  Min :: val
  Max :: val
  Exclusive :: bool
  Exact :: bool
  encodedMin :: "8 word list option"
  encodedMax :: "8 word list option"
  rangeType :: ValueType

definition ValueRange_IsEqual :: "comparisons \<Rightarrow> ValueRange \<Rightarrow> ValueRange \<Rightarrow> bool" where
  "ValueRange_IsEqual cmp r other =
     (if Exact r \<noteq> Exact other then False
      else if rangeType r \<noteq> rangeType other then False
      else if Exclusive r \<noteq> Exclusive other then False
      else if tp (Min r) \<noteq> tp (Min other) then False
      else
        case IsEqual cmp (Min r) (Min other) of
          (ok, err) \<Rightarrow>
            if err \<noteq> None \<or> \<not> ok then False
            else if tp (Max r) \<noteq> tp (Max other) then False
            else
              case IsEqual cmp (Max r) (Max other) of
                (ok, err) \<Rightarrow> if err \<noteq> None \<or> \<not> ok then False else True)"

fun ValueRanges_isDuplicate :: "comparisons \<Rightarrow> ValueRange list \<Rightarrow> ValueRange \<Rightarrow> bool" where
  "ValueRanges_isDuplicate cmp [] rng = False"
| "ValueRanges_isDuplicate cmp (e # r) rng =
     (if ValueRange_IsEqual cmp e rng then True else ValueRanges_isDuplicate cmp r rng)"

definition ValueRanges_Append ::
  "comparisons \<Rightarrow> ValueRange list \<Rightarrow> ValueRange \<Rightarrow> ValueRange list" where
  "ValueRanges_Append cmp r rng = (if ValueRanges_isDuplicate cmp r rng then r else r @ [rng])"

text \<open>The body of the loop of \<open>ValueRanges.Cost\<close>; Go's \<open>int\<close> is read as an integer.\<close>

definition ValueRanges_Cost_step :: "int \<Rightarrow> ValueRange \<Rightarrow> int" where
  "ValueRanges_Cost_step cost rng =
     (if Exact rng then cost + 1
      else
        let cost = (if \<not> IsZero (tp (Min rng)) \<and> \<not> IsZero (tp (Max rng)) then cost + 50 else cost)
        in if (\<not> IsZero (tp (Min rng)) \<and> IsZero (tp (Max rng))) \<or>
              (IsZero (tp (Min rng)) \<and> \<not> IsZero (tp (Max rng)))
           then cost + 100
           else cost + 200)"

definition ValueRanges_Cost :: "ValueRange list \<Rightarrow> int" where
  "ValueRanges_Cost r = foldl ValueRanges_Cost_step 0 r"

definition ValueRange_IsInRange :: "ValueRange \<Rightarrow> 8 word list \<Rightarrow> bool" where
  "ValueRange_IsInRange r v =
     (let cmpMin = (case encodedMin r of None \<Rightarrow> 1 | Some m \<Rightarrow> bytes_Compare v m)
      in if Exact r then cmpMin = 0
         else if Exclusive r \<and> cmpMin = 0 then False
         else
           let cmpMax = (case encodedMax r of None \<Rightarrow> - 1 | Some m \<Rightarrow> bytes_Compare v m)
           in if Exclusive r \<and> cmpMax = 0 then False
              else cmpMax \<le> 0)"

text \<open>
  An IndexRange has the fields of a ValueRange over value buffers; its fields carry the
  prefix \<open>I\<close> where the names would clash. A \<open>*document.ValueBuffer\<close> is nil (\<open>None\<close>)
  or a buffer of values.

  Modelled from the spec: \<open>ValueBuffer.Len\<close> (not among the sources), the number of values
  of the buffer and 0 for nil. \<open>ValueBuffer.IsEqual\<close> is a parameter.
\<close>

record IndexRange =
  IMin :: "val list option"
  IMax :: "val list option"
  IExclusive :: bool
  IExact :: bool
  Arity :: int
  IndexArityMax :: int
  IencodedMin :: "8 word list option"
  IencodedMax :: "8 word list option"
  rangeTypes :: "ValueType list"

definition Len :: "val list option \<Rightarrow> nat" where
  "Len vb = (case vb of None \<Rightarrow> 0 | Some vs \<Rightarrow> length vs)"

text \<open>
  The loop of \<open>IndexRange.IsEqual\<close> over \<open>r.rangeTypes\<close>, reading \<open>other.rangeTypes[i]\<close>:
  \<open>Some True\<close> when a type differs, \<open>Some False\<close> when the loop ends, \<open>None\<close> when the
  index is out of range (a panic).
\<close>

fun rangeTypes_differ :: "ValueType list \<Rightarrow> ValueType list \<Rightarrow> bool option" where
  "rangeTypes_differ [] us = Some False"
| "rangeTypes_differ (t # ts) [] = None"
| "rangeTypes_differ (t # ts) (u # us) = (if t \<noteq> u then Some True else rangeTypes_differ ts us)"

definition IndexRange_IsEqual ::
  "(val list option \<Rightarrow> val list option \<Rightarrow> bool) \<Rightarrow> IndexRange \<Rightarrow> IndexRange \<Rightarrow> bool option" where
  "IndexRange_IsEqual vbeq r other =
     (if IExact r \<noteq> IExact other then Some False
      else
        case rangeTypes_differ (rangeTypes r) (rangeTypes other) of
          None \<Rightarrow> None
        | Some True \<Rightarrow> Some False
        | Some False \<Rightarrow>
            if IExclusive r \<noteq> IExclusive other then Some False
            else if \<not> vbeq (IMin r) (IMin other) then Some False
            else if \<not> vbeq (IMax r) (IMax other) then Some False
            else Some True)"

fun IndexRanges_isDuplicate ::
  "(val list option \<Rightarrow> val list option \<Rightarrow> bool) \<Rightarrow> IndexRange list \<Rightarrow> IndexRange \<Rightarrow> bool option" where
  "IndexRanges_isDuplicate vbeq [] rng = Some False"
| "IndexRanges_isDuplicate vbeq (e # r) rng =
     (case IndexRange_IsEqual vbeq e rng of
        None \<Rightarrow> None
      | Some True \<Rightarrow> Some True
      | Some False \<Rightarrow> IndexRanges_isDuplicate vbeq r rng)"

definition IndexRanges_Append ::
  "(val list option \<Rightarrow> val list option \<Rightarrow> bool) \<Rightarrow> IndexRange list \<Rightarrow> IndexRange
   \<Rightarrow> IndexRange list option" where
  "IndexRanges_Append vbeq r rng =
     (case IndexRanges_isDuplicate vbeq r rng of
        None \<Rightarrow> None
      | Some True \<Rightarrow> Some r
      | Some False \<Rightarrow> Some (r @ [rng]))"

definition IndexRanges_Cost_step :: "int \<Rightarrow> IndexRange \<Rightarrow> int" where
  "IndexRanges_Cost_step cost rng =
     (if IExact rng then cost + 1
      else if 0 < Len (IMin rng) \<and> 0 < Len (IMax rng) then cost + 50
      else if 0 < Len (IMin rng) \<or> 0 < Len (IMax rng) then cost + 100
      else cost + 200)"

definition IndexRanges_Cost :: "IndexRange list \<Rightarrow> int" where
  "IndexRanges_Cost r = foldl IndexRanges_Cost_step 0 r"

text \<open>
  A Go slice is the bytes up to its length together with the bytes of its backing array
  between the length and the capacity (\<open>spare\<close>). \<open>value[:n]\<close> is the first \<open>n\<close> bytes of
  the array from the start of the slice; it panics (\<open>None\<close>) when \<open>n\<close> is negative or
  beyond the capacity.
\<close>

definition slice_to :: "8 word list \<Rightarrow> 8 word list \<Rightarrow> int \<Rightarrow> 8 word list option" where
  "slice_to v spare n =
     (if 0 \<le> n \<and> n \<le> int (length v + length spare) then Some (take (nat n) (v @ spare))
      else None)"

definition IndexRange_IsInRange :: "IndexRange \<Rightarrow> 8 word list \<Rightarrow> 8 word list \<Rightarrow> bool option" where
  "IndexRange_IsInRange r v spare =
     (let cmpMin = (case IencodedMin r of None \<Rightarrow> 1 | Some m \<Rightarrow> bytes_Compare v m)
      in if IExact r then Some (cmpMin = 0)
         else if IExclusive r \<and> cmpMin = 0 then Some False
         else
           case (case IencodedMax r of
                   None \<Rightarrow> Some (- 1)
                 | Some m \<Rightarrow>
                     if IndexArityMax r < Arity r then
                       (case slice_to v spare (int (length m) - 1) of
                          None \<Rightarrow> None
                        | Some w \<Rightarrow> Some (bytes_Compare w m))
                     else Some (bytes_Compare v m)) of
             None \<Rightarrow> None
           | Some cmpMax \<Rightarrow>
               if IExclusive r \<and> cmpMax = 0 then Some False
               else Some (cmpMin \<ge> 0 \<and> cmpMax \<le> 0))"

text \<open>
  The range semantics in the words of the specification: equality with the encoded
  minimum for an exact range, otherwise both bounds in lexicographic byte order, an absent
  bound unconstrained and the present bounds excluded when the range is exclusive.
\<close>

definition in_range_spec ::
  "bool \<Rightarrow> bool \<Rightarrow> 8 word list option \<Rightarrow> 8 word list option \<Rightarrow> 8 word list \<Rightarrow> bool" where
  "in_range_spec exact excl emin emax v =
     (if exact then emin = Some v
      else (case emin of None \<Rightarrow> True | Some m \<Rightarrow> if excl then m < v else m \<le> v) \<and>
           (case emax of None \<Rightarrow> True | Some m \<Rightarrow> if excl then v < m else v \<le> m))"

section \<open>The catalog cache (internal/database/catalog.go)\<close>

text \<open>
  Modelled from the spec: paths, field constraints, table, index and sequence
  information and the transaction (their declarations are not among the sources). A Path
  is a sequence of fragments, and two paths are equal when their fragments are. The
  fields of IndexInfo that share a name with a field of TableInfo carry the prefix \<open>I\<close>.
  A transaction carries its rollback hooks, closures that change the cache; on abort they
  run in reverse order.
\<close>

record PathFragment =
  FieldName :: string
  ArrayIndex :: int

type_synonym Path = "PathFragment list"

definition Path_IsEqual :: "Path \<Rightarrow> Path \<Rightarrow> bool" where
  "Path_IsEqual p other \<longleftrightarrow> p = other"

record FieldConstraint =
  Path :: Path
  Type :: ValueType
  IsPrimaryKey :: bool
  IsNotNull :: bool
  DefaultValue :: "val option"

record TableInfo =
  TableName :: string
  StoreName :: "8 word list option"
  ReadOnly :: bool
  FieldConstraints :: "FieldConstraint list"

record IndexInfo =
  ITableName :: string
  IndexName :: string
  Paths :: "Path list"
  Unique :: bool
  Types :: "ValueType list"
  IStoreName :: "8 word list option"
  ConstraintPath :: "Path option"

record SequenceInfo =
  Name :: string

record Sequence =
  Info :: SequenceInfo

record catalogCache =
  tables :: "string \<rightharpoonup> TableInfo"
  indexes :: "string \<rightharpoonup> IndexInfo"
  indexesPerTables :: "string \<rightharpoonup> IndexInfo list"
  sequences :: "string \<rightharpoonup> Sequence"

record Transaction =
  OnRollbackHooks :: "(catalogCache \<Rightarrow> catalogCache) list"

definition Rollback :: "Transaction \<Rightarrow> catalogCache \<Rightarrow> catalogCache" where
  "Rollback tx c = foldl (\<lambda>c hook. hook c) c (rev (OnRollbackHooks tx))"

definition append_hook :: "Transaction \<Rightarrow> (catalogCache \<Rightarrow> catalogCache) \<Rightarrow> Transaction" where
  "append_hook tx hook = tx\<lparr>OnRollbackHooks := OnRollbackHooks tx @ [hook]\<rparr>"

definition newCatalogCache :: catalogCache where
  "newCatalogCache = \<lparr>tables = Map.empty, indexes = Map.empty,
     indexesPerTables = Map.empty, sequences = Map.empty\<rparr>"

text \<open>Reading a map of slices at a key it does not have gives the nil slice.\<close>

definition slice_at :: "(string \<rightharpoonup> 'a list) \<Rightarrow> string \<Rightarrow> 'a list" where
  "slice_at m k = (case m k of None \<Rightarrow> [] | Some l \<Rightarrow> l)"

definition AddTable :: "catalogCache \<Rightarrow> Transaction \<Rightarrow> TableInfo \<Rightarrow> error + catalogCache \<times> Transaction" where
  "AddTable c tx info =
     (if tables c (TableName info) \<noteq> None then Inl (AlreadyExistsError (TableName info))
      else if indexes c (TableName info) \<noteq> None then Inl (AlreadyExistsError (TableName info))
      else if sequences c (TableName info) \<noteq> None then Inl (AlreadyExistsError (TableName info))
      else
        Inr (c\<lparr>tables := (tables c)(TableName info \<mapsto> info)\<rparr>,
             append_hook tx (\<lambda>c. c\<lparr>tables := (tables c)(TableName info := None)\<rparr>)))"

text \<open>
  \<open>DeleteTable\<close> ranges over the map of indexes, in an order Go leaves unspecified:
  \<open>order\<close> is the order in which the keys are visited.
\<close>

definition DeleteTable ::
  "string list \<Rightarrow> catalogCache \<Rightarrow> Transaction \<Rightarrow> string
   \<Rightarrow> error + catalogCache \<times> Transaction \<times> TableInfo \<times> IndexInfo list" where
  "DeleteTable order c tx tableName =
     (case tables c tableName of
        None \<Rightarrow> Inl ErrTableNotFound
      | Some ti \<Rightarrow>
          if ReadOnly ti then Inl ErrReadOnlyTable
          else
            let c1 = c\<lparr>tables := (tables c)(tableName := None),
                       indexesPerTables := (indexesPerTables c)(tableName := None)\<rparr>;
                removedIndexes =
                  filter (\<lambda>idx. ITableName idx = tableName) (List.map_filter (indexes c1) order);
                hook = (\<lambda>c.
                  let c = c\<lparr>tables := (tables c)(tableName \<mapsto> ti)\<rparr>;
                      c = foldl (\<lambda>c idx. c\<lparr>indexes := (indexes c)(IndexName idx \<mapsto> idx)\<rparr>)
                            c removedIndexes
                  in if 0 < length removedIndexes
                     then c\<lparr>indexesPerTables := (indexesPerTables c)(tableName \<mapsto> removedIndexes)\<rparr>
                     else c)
            in Inr (c1, append_hook tx hook, ti, removedIndexes))"

text \<open>
  The automatic name of an index is built with \<open>Sprintf\<close> and \<open>Path.String\<close>, which are
  not among the sources: \<open>name0\<close> is the name without a number and \<open>nameN i\<close> the name with
  the number \<open>i\<close>. The search for a free name is a loop without a bound.
\<close>

partial_function (option) free_index_name ::
  "(nat \<Rightarrow> string) \<Rightarrow> (string \<rightharpoonup> IndexInfo) \<Rightarrow> nat \<Rightarrow> string option" where
  "free_index_name nameN idxs i =
     (if idxs (nameN i) = None then Some (nameN i) else free_index_name nameN idxs (i + 1))"

definition AddIndex_name ::
  "string \<Rightarrow> (nat \<Rightarrow> string) \<Rightarrow> (string \<rightharpoonup> IndexInfo) \<Rightarrow> IndexInfo \<Rightarrow> string option" where
  "AddIndex_name name0 nameN idxs info =
     (if IndexName info = [] then
        (if idxs name0 \<noteq> None then free_index_name nameN idxs 1 else Some name0)
      else Some (IndexName info))"

text \<open>The constraint of the table found first for a path, and the loop that fills \<open>info.Types\<close>.\<close>

definition AddIndex_types_step :: "FieldConstraint list \<Rightarrow> ValueType list \<Rightarrow> Path \<Rightarrow> ValueType list" where
  "AddIndex_types_step fcs types path =
     (case find (\<lambda>fc. Path_IsEqual (Path fc) path) fcs of
        Some fc \<Rightarrow> if Type fc \<noteq> 0 then types @ [Type fc] else types
      | None \<Rightarrow> types @ [0])"

definition AddIndex_types :: "FieldConstraint list \<Rightarrow> Path list \<Rightarrow> ValueType list" where
  "AddIndex_types fcs paths = foldl (AddIndex_types_step fcs) [] paths"

text \<open>
  \<open>AddIndex\<close> changes the IndexInfo it is given (its name and its types) and returns it
  with the cache; \<open>None\<close> when the search for a name does not end.
\<close>

definition AddIndex ::
  "string \<Rightarrow> (nat \<Rightarrow> string) \<Rightarrow> catalogCache \<Rightarrow> Transaction \<Rightarrow> IndexInfo
   \<Rightarrow> (error + catalogCache \<times> Transaction \<times> IndexInfo) option" where
  "AddIndex name0 nameN c tx info0 =
     (case AddIndex_name name0 nameN (indexes c) info0 of
        None \<Rightarrow> None
      | Some name \<Rightarrow>
          Some
            (let info1 = info0\<lparr>IndexName := name\<rparr>
             in if indexes c name \<noteq> None then Inl (AlreadyExistsError name)
                else if tables c name \<noteq> None then Inl (AlreadyExistsError name)
                else if sequences c name \<noteq> None then Inl (AlreadyExistsError name)
                else
                  case tables c (ITableName info1) of
                    None \<Rightarrow> Inl ErrTableNotFound
                  | Some ti \<Rightarrow>
                      let info = info1\<lparr>Types := AddIndex_types (FieldConstraints ti) (Paths info1)\<rparr>;
                          previousIndexes = slice_at (indexesPerTables c) (ITableName info);
                          c1 = c\<lparr>indexes := (indexes c)(name \<mapsto> info),
                                 indexesPerTables :=
                                   (indexesPerTables c)(ITableName info \<mapsto> previousIndexes @ [info])\<rparr>;
                          hook = (\<lambda>c.
                            let c = c\<lparr>indexes := (indexes c)(name := None)\<rparr>
                            in if length previousIndexes = 0
                               then c\<lparr>indexesPerTables := (indexesPerTables c)(ITableName info := None)\<rparr>
                               else c\<lparr>indexesPerTables :=
                                        (indexesPerTables c)(ITableName info \<mapsto> previousIndexes)\<rparr>)
                      in Inr (c1, append_hook tx hook, info)))"

definition DeleteIndex ::
  "catalogCache \<Rightarrow> Transaction \<Rightarrow> string \<Rightarrow> error + catalogCache \<times> Transaction \<times> IndexInfo" where
  "DeleteIndex c tx indexName =
     (case indexes c indexName of
        None \<Rightarrow> Inl ErrIndexNotFound
      | Some info \<Rightarrow>
          if ConstraintPath info \<noteq> None then Inl (ErrConstraintRequiresIndex (IndexName info))
          else
            let newIndexlist =
                  filter (\<lambda>idx. IndexName idx \<noteq> indexName)
                    (slice_at (indexesPerTables c) (ITableName info));
                oldIndexList = slice_at (indexesPerTables c) (ITableName info);
                c1 = c\<lparr>indexes := (indexes c)(indexName := None),
                       indexesPerTables := (indexesPerTables c)(ITableName info \<mapsto> newIndexlist)\<rparr>;
                hook = (\<lambda>c. c\<lparr>indexes := (indexes c)(indexName \<mapsto> info),
                                indexesPerTables :=
                                  (indexesPerTables c)(ITableName info \<mapsto> oldIndexList)\<rparr>)
            in Inr (c1, append_hook tx hook, info))"

text \<open>
  \<open>updateTable\<close> hands a clone of the table information to \<open>fn\<close>, which changes it or
  fails.
\<close>

definition updateTable ::
  "catalogCache \<Rightarrow> Transaction \<Rightarrow> string \<Rightarrow> (TableInfo \<Rightarrow> error + TableInfo)
   \<Rightarrow> error + catalogCache \<times> Transaction \<times> TableInfo \<times> IndexInfo list" where
  "updateTable c tx tableName fn =
     (case tables c tableName of
        None \<Rightarrow> Inl ErrTableNotFound
      | Some ti \<Rightarrow>
          if ReadOnly ti then Inl ErrReadOnlyTable
          else
            case fn ti of
              Inl err \<Rightarrow> Inl err
            | Inr clone \<Rightarrow>
                let renamed = (TableName clone \<noteq> tableName);
                    oldIndexes = (if renamed then slice_at (indexesPerTables c) tableName else []);
                    newIndexes = map (\<lambda>idx. idx\<lparr>ITableName := TableName clone\<rparr>) oldIndexes;
                    c1 = (if renamed then
                            let c = c\<lparr>tables := (tables c)(tableName := None)\<rparr>;
                                c = foldl (\<lambda>c idxClone.
                                      c\<lparr>indexes := (indexes c)(IndexName idxClone \<mapsto> idxClone)\<rparr>)
                                      c newIndexes
                            in if 0 < length newIndexes
                               then c\<lparr>indexesPerTables :=
                                        ((indexesPerTables c)(TableName clone \<mapsto> newIndexes))
                                          (tableName := None)\<rparr>
                               else c
                          else c);
                    c2 = c1\<lparr>tables := (tables c1)(TableName clone \<mapsto> clone)\<rparr>;
                    hook = (\<lambda>c.
                      let c = c\<lparr>tables := ((tables c)(TableName clone := None))(tableName \<mapsto> ti)\<rparr>;
                          c = foldl (\<lambda>c idx. c\<lparr>indexes := (indexes c)(IndexName idx \<mapsto> idx)\<rparr>)
                                c oldIndexes
                      in if TableName clone \<noteq> tableName
                         then c\<lparr>indexesPerTables :=
                                  ((indexesPerTables c)(TableName clone := None))
                                    (tableName \<mapsto> oldIndexes)\<rparr>
                         else c)
                in Inr (c2, append_hook tx hook, clone, newIndexes))"

definition AddSequence ::
  "catalogCache \<Rightarrow> Transaction \<Rightarrow> SequenceInfo \<Rightarrow> error + catalogCache \<times> Transaction" where
  "AddSequence c tx info =
     (if sequences c (Name info) \<noteq> None then Inl (AlreadyExistsError (Name info))
      else if tables c (Name info) \<noteq> None then Inl (AlreadyExistsError (Name info))
      else if indexes c (Name info) \<noteq> None then Inl (AlreadyExistsError (Name info))
      else
        Inr (c\<lparr>sequences := (sequences c)(Name info \<mapsto> \<lparr>Info = info\<rparr>)\<rparr>,
             append_hook tx (\<lambda>c. c\<lparr>sequences := (sequences c)(Name info := None)\<rparr>)))"

definition DeleteSequence ::
  "catalogCache \<Rightarrow> Transaction \<Rightarrow> string \<Rightarrow> error + catalogCache \<times> Transaction \<times> Sequence" where
  "DeleteSequence c tx name =
     (case sequences c name of
        None \<Rightarrow> Inl ErrSequenceNotFound
      | Some seq \<Rightarrow>
          Inr (c\<lparr>sequences := (sequences c)(name := None)\<rparr>,
               append_hook tx (\<lambda>c. c\<lparr>sequences := (sequences c)(name \<mapsto> seq)\<rparr>),
               seq))"

text \<open>The type the first constraint on a path declares, 0 when there is none.\<close>

definition declared_type :: "FieldConstraint list \<Rightarrow> Path \<Rightarrow> ValueType" where
  "declared_type fcs p = (case find (\<lambda>fc. Path_IsEqual (Path fc) p) fcs of Some fc \<Rightarrow> Type fc | None \<Rightarrow> 0)"

section \<open>The COUNT aggregator (package functions)\<close>

text \<open>
  An expression is evaluated in an environment and returns a value and an error. The
  environment is the current document, if any.

  Modelled from the spec: the evaluation of a path (\<open>Path.Eval\<close>, not among the sources).
  The path is looked up in the current document, and a field that is not found yields
  Null, reported with \<open>ErrFieldNotFound\<close>.
\<close>

type_synonym Environment = "(string \<times> val) list option"

type_synonym Expr = "Environment \<Rightarrow> val \<times> error option"

definition NullLiteral :: val where
  "NullLiteral = NewNullValue"

fun GetValueFromDocument :: "val \<Rightarrow> Path \<Rightarrow> error + val" where
  "GetValueFromDocument v [] = Inr v"
| "GetValueFromDocument v (frag # rest) =
     (case V v of
        IDocument d \<Rightarrow>
          (case map_of d (FieldName frag) of
             None \<Rightarrow> Inl ErrFieldNotFound
           | Some x \<Rightarrow> GetValueFromDocument x rest)
      | IArray a \<Rightarrow>
          (if 0 \<le> ArrayIndex frag \<and> nat (ArrayIndex frag) < length a
           then GetValueFromDocument (a ! nat (ArrayIndex frag)) rest
           else Inl ErrFieldNotFound)
      | _ \<Rightarrow> Inl ErrFieldNotFound)"

definition Path_Eval :: "Path \<Rightarrow> Expr" where
  "Path_Eval p env =
     (case env of
        None \<Rightarrow> (NullLiteral, Some ErrFieldNotFound)
      | Some d \<Rightarrow>
          (case GetValueFromDocument (NewDocumentValue d) p of
             Inl err \<Rightarrow> (NullLiteral, Some err)
           | Inr v \<Rightarrow> (v, None)))"

text \<open>The counter of a CountFunc, which the aggregator does not use, is \<open>FnCount\<close>.\<close>

record CountFunc =
  Expr :: Expr
  Wildcard :: bool
  FnCount :: "64 word"

record CountAggregator =
  Fn :: CountFunc
  Count :: "64 word"

definition Aggregator :: "CountFunc \<Rightarrow> CountAggregator" where
  "Aggregator c = \<lparr>Fn = c, Count = 0\<rparr>"

definition Aggregate :: "CountAggregator \<Rightarrow> Environment \<Rightarrow> error + CountAggregator" where
  "Aggregate c env =
     (if Wildcard (Fn c) then Inr (c\<lparr>Count := Count c + 1\<rparr>)
      else
        case Expr (Fn c) env of
          (v, err) \<Rightarrow>
            if err \<noteq> None \<and> err \<noteq> Some ErrFieldNotFound then Inl (the err)
            else if v \<noteq> NullLiteral then Inr (c\<lparr>Count := Count c + 1\<rparr>)
            else Inr c)"

definition CountAggregator_Eval :: "CountAggregator \<Rightarrow> Environment \<Rightarrow> val \<times> error option" where
  "CountAggregator_Eval c env = (NewIntegerValue (Count c), None)"

text \<open>
  Modelled from the spec: the stream hands each of its rows to the aggregator, in order,
  and stops at the first error (the operator that drives the aggregators is not among the
  sources).
\<close>

fun Aggregate_rows :: "CountAggregator \<Rightarrow> Environment list \<Rightarrow> error + CountAggregator" where
  "Aggregate_rows c [] = Inr c"
| "Aggregate_rows c (env # envs) =
     (case Aggregate c env of Inl err \<Rightarrow> Inl err | Inr c' \<Rightarrow> Aggregate_rows c' envs)"

section \<open>UPDATE (sql/query/update.go)\<close>

text \<open>
  Modelled from the spec: the store of the engine, an ordered map from keys to documents,
  here the list of its rows in ascending key order. \<open>Seek(k)\<close> moves the iterator to the
  first row whose key is not below \<open>k\<close> (to the first row for nil), \<open>Replace\<close> changes the
  document of an existing key, and a stream with a filter and a limit hands on the rows
  that pass the filter, at most the limit of them. The constant \<open>deleteBufferSize\<close> is
  declared with DELETE, which is not among the sources: the buffer of both statements
  holds 100 rows.
\<close>

type_synonym 'd store = "(8 word list \<times> 'd) list"

definition Seek :: "'d store \<Rightarrow> 8 word list option \<Rightarrow> 'd store" where
  "Seek s k = (case k of None \<Rightarrow> s | Some pivot \<Rightarrow> dropWhile (\<lambda>(key, d). key < pivot) s)"

fun Replace :: "'d store \<Rightarrow> 8 word list \<Rightarrow> 'd \<Rightarrow> error + 'd store" where
  "Replace [] key d = Inl (ErrOther ''key not found'')"
| "Replace ((k, old) # s) key d =
     (if k = key then Inr ((k, d) # s)
      else case Replace s key d of Inl err \<Rightarrow> Inl err | Inr s' \<Rightarrow> Inr ((k, old) # s'))"

definition updateBufferSize :: nat where "updateBufferSize = 100"
definition deleteBufferSize :: nat where "deleteBufferSize = 100"

record 'd resumableIterator =
  rstore :: "'d store"
  curKey :: "8 word list option"

text \<open>
  The callback of \<open>Run\<close> over the rows the stream hands on: it changes each document with
  the SET or UNSET clause (\<open>upd\<close>) and keeps its key, until a document fails.
\<close>

fun fill_buffer ::
  "('d \<Rightarrow> error + 'd) \<Rightarrow> 'd store \<Rightarrow> (8 word list \<times> 'd) list \<times> error option" where
  "fill_buffer upd [] = ([], None)"
| "fill_buffer upd ((key, d) # rows) =
     (case upd d of
        Inl err \<Rightarrow> ([], Some err)
      | Inr d' \<Rightarrow> (case fill_buffer upd rows of (buf, err) \<Rightarrow> ((key, d') # buf, err)))"

text \<open>
  The loop over the buffer: the store after the replacements that succeeded, their keys,
  and the error of the replacement that failed, if one did.
\<close>

fun replace_all ::
  "'d store \<Rightarrow> (8 word list \<times> 'd) list \<Rightarrow> 'd store \<times> 8 word list list \<times> error option" where
  "replace_all s [] = (s, [], None)"
| "replace_all s ((key, d) # buf) =
     (case Replace s key d of
        Inl err \<Rightarrow> (s, [], Some err)
      | Inr s' \<Rightarrow> (case replace_all s' buf of (s'', ks, err) \<Rightarrow> (s'', key # ks, err)))"

text \<open>
  The loop of \<open>Run\<close>. It returns the store, the keys it has replaced, in order, and the
  error of \<open>Run\<close>; \<open>None\<close> when the loop does not end.
\<close>

partial_function (option) Run_loop ::
  "('d \<Rightarrow> bool) \<Rightarrow> ('d \<Rightarrow> error + 'd) \<Rightarrow> 'd resumableIterator \<Rightarrow> 8 word list list
   \<Rightarrow> ('d store \<times> 8 word list list \<times> error option) option" where
  "Run_loop whereClause upd rit replaced =
     (case fill_buffer upd
             (take updateBufferSize
                (filter (\<lambda>(key, d). whereClause d) (Seek (rstore rit) (curKey rit)))) of
        (buf, err) \<Rightarrow>
          (case replace_all (rstore rit) buf of
             (s', ks, Some rerr) \<Rightarrow> Some (s', replaced @ ks, Some rerr)
           | (s', ks, None) \<Rightarrow>
               if length buf < deleteBufferSize
               then Some (s', replaced @ ks, (if buf = [] then err else None))
               else Run_loop whereClause upd
                      \<lparr>rstore = s', curKey = Some (fst (last buf))\<rparr>
                      (replaced @ ks)))"

definition Run ::
  "('d \<Rightarrow> bool) \<Rightarrow> ('d \<Rightarrow> error + 'd) \<Rightarrow> 'd store
   \<Rightarrow> ('d store \<times> 8 word list list \<times> error option) option" where
  "Run whereClause upd s = Run_loop whereClause upd \<lparr>rstore = s, curKey = None\<rparr> []"

section \<open>Inputs used in the examples\<close>

definition no_strconv :: strconv where
  "no_strconv = \<lparr>ParseInt = (\<lambda>s. Inl (ErrSyntax s)), ParseFloat = (\<lambda>s. Inl (ErrSyntax s))\<rparr>"

definition no_comparisons :: comparisons where
  "no_comparisons =
     \<lparr>IsEqual = (\<lambda>_ _. (False, None)), IsNotEqual = (\<lambda>_ _. (False, None)),
      IsGreaterThan = (\<lambda>_ _. (False, None)), IsGreaterThanOrEqual = (\<lambda>_ _. (False, None)),
      IsLesserThan = (\<lambda>_ _. (False, None)), IsLesserThanOrEqual = (\<lambda>_ _. (False, None))\<rparr>"

definition two_sided :: ValueRange where
  "two_sided = \<lparr>Min = NewIntegerValue 1, Max = NewIntegerValue 5, Exclusive = False,
     Exact = False, encodedMin = None, encodedMax = None, rangeType = 0\<rparr>"

definition one_sided :: ValueRange where
  "one_sided = \<lparr>Min = NewIntegerValue 1, Max = Value 0 INil, Exclusive = False,
     Exact = False, encodedMin = None, encodedMax = None, rangeType = 0\<rparr>"

definition open_range :: ValueRange where
  "open_range = \<lparr>Min = Value 0 INil, Max = Value 0 INil, Exclusive = False,
     Exact = False, encodedMin = None, encodedMax = None, rangeType = 0\<rparr>"

definition exact_range :: ValueRange where
  "exact_range = \<lparr>Min = NewIntegerValue 1, Max = Value 0 INil, Exclusive = False,
     Exact = True, encodedMin = None, encodedMax = None, rangeType = 0\<rparr>"

definition lower_bounded :: ValueRange where
  "lower_bounded = \<lparr>Min = NewTextValue ''5'', Max = Value 0 INil, Exclusive = False,
     Exact = False, encodedMin = Some [0x35], encodedMax = None, rangeType = TextValue\<rparr>"

definition encoded_index :: IndexRange where
  "encoded_index = \<lparr>IMin = Some [NewIntegerValue 1], IMax = None, IExclusive = False,
     IExact = False, Arity = 0, IndexArityMax = 0,
     IencodedMin = Some [0x80, 0, 0, 0, 0, 0, 0, 1], IencodedMax = None,
     rangeTypes = [IntegerValue]\<rparr>"

definition fresh_index :: IndexRange where
  "fresh_index = \<lparr>IMin = Some [NewIntegerValue 1], IMax = None, IExclusive = False,
     IExact = False, Arity = 0, IndexArityMax = 0,
     IencodedMin = None, IencodedMax = None, rangeTypes = []\<rparr>"

definition path_a :: Path where "path_a = [\<lparr>FieldName = ''a'', ArrayIndex = 0\<rparr>]"
definition path_b :: Path where "path_b = [\<lparr>FieldName = ''b'', ArrayIndex = 0\<rparr>]"

definition table_t :: TableInfo where
  "table_t = \<lparr>TableName = ''t'', StoreName = Some [1], ReadOnly = False,
     FieldConstraints =
       [\<lparr>Path = path_a, Type = 0, IsPrimaryKey = False, IsNotNull = True, DefaultValue = None\<rparr>,
        \<lparr>Path = path_b, Type = IntegerValue, IsPrimaryKey = False, IsNotNull = False,
          DefaultValue = None\<rparr>]\<rparr>"

definition table_u :: TableInfo where
  "table_u = \<lparr>TableName = ''u'', StoreName = Some [2], ReadOnly = False, FieldConstraints = []\<rparr>"

definition index_on :: "string \<Rightarrow> string \<Rightarrow> Path list \<Rightarrow> IndexInfo" where
  "index_on t n ps = \<lparr>ITableName = t, IndexName = n, Paths = ps, Unique = False, Types = [],
     IStoreName = None, ConstraintPath = None\<rparr>"

definition cache_tu :: catalogCache where
  "cache_tu = \<lparr>tables = [''t'' \<mapsto> table_t, ''u'' \<mapsto> table_u], indexes = Map.empty,
     indexesPerTables = Map.empty, sequences = Map.empty\<rparr>"

definition cache_t_indexed :: catalogCache where
  "cache_t_indexed = \<lparr>tables = [''t'' \<mapsto> table_t],
     indexes = [''i1'' \<mapsto> index_on ''t'' ''i1'' [path_a], ''i2'' \<mapsto> index_on ''t'' ''i2'' [path_b]],
     indexesPerTables = [''t'' \<mapsto> [index_on ''t'' ''i1'' [path_a], index_on ''t'' ''i2'' [path_b]]],
     sequences = Map.empty\<rparr>"

definition new_tx :: Transaction where
  "new_tx = \<lparr>OnRollbackHooks = []\<rparr>"

definition rename_to :: "string \<Rightarrow> TableInfo \<Rightarrow> error + TableInfo" where
  "rename_to newName clone = Inr (clone\<lparr>TableName := newName\<rparr>)"

definition hundred_rows :: "int store" where
  "hundred_rows = map (\<lambda>i. ([word_of_nat i], 0)) [0..<100]"

definition increment :: "int \<Rightarrow> error + int" where
  "increment d = Inr (d + 1)"

definition count_a :: CountFunc where
  "count_a = \<lparr>Expr = Path_Eval path_a, Wildcard = False, FnCount = 0\<rparr>"

definition count_star :: CountFunc where
  "count_star = \<lparr>Expr = Path_Eval [], Wildcard = True, FnCount = 0\<rparr>"

definition three_rows :: "Environment list" where
  "three_rows =
     [Some [(''a'', NewIntegerValue 1)], Some [(''b'', NewIntegerValue 2)],
      Some [(''a'', NewNullValue), (''b'', NewIntegerValue 3)]]"

section \<open>Properties\<close>

lemmas ValueType_defs =
  AnyType_def NullValue_def BoolValue_def IntegerValue_def DoubleValue_def
  TextValue_def BlobValue_def ArrayValue_def DocumentValue_def

lemmas New_defs =
  NewNullValue_def NewBoolValue_def NewIntegerValue_def NewDoubleValue_def
  NewBlobValue_def NewTextValue_def NewArrayValue_def NewDocumentValue_def
  NewEmptyValue_def NewValueWith_def

declare nbits.simps [simp del]

subsection \<open>Null propagation\<close>

lemma calculateValues_Null:
  "tp a = NullValue \<or> tp b = NullValue \<or> tp a = BoolValue \<or> tp b = BoolValue
   \<Longrightarrow> calculateValues sc a b operator = Inr NewNullValue"
  by (auto simp: calculateValues_def)

text \<open>
  C2. Each of Add, Sub, Mul, Div, Mod, BitwiseAnd, BitwiseOr and BitwiseXor returns Null
  when either operand is Null or Bool; and a comparison evaluated by \<open>cmpOp.Eval\<close>,
  whatever its token, returns Null when its operands evaluate without error and either of
  them is Null.
\<close>

theorem null_propagation:
  "(tp a = NullValue \<or> tp b = NullValue \<or> tp a = BoolValue \<or> tp b = BoolValue \<longrightarrow>
      Add sc a b = Inr NewNullValue \<and> Sub sc a b = Inr NewNullValue \<and>
      Mul sc a b = Inr NewNullValue \<and> Div sc a b = Inr NewNullValue \<and>
      Mod sc a b = Inr NewNullValue \<and> BitwiseAnd sc a b = Inr NewNullValue \<and>
      BitwiseOr sc a b = Inr NewNullValue \<and> BitwiseXor sc a b = Inr NewNullValue) \<and>
   (eval op ctx = (v1, v2, None) \<and> (tp v1 = NullValue \<or> tp v2 = NullValue) \<longrightarrow>
      cmpOp_Eval cmp op ctx = Some (NewNullValue, None))"
proof (intro conjI impI)
  assume h: "tp a = NullValue \<or> tp b = NullValue \<or> tp a = BoolValue \<or> tp b = BoolValue"
  note n = calculateValues_Null [OF h]
  show "Add sc a b = Inr NewNullValue" by (simp add: Add_def n)
  show "Sub sc a b = Inr NewNullValue" by (simp add: Sub_def n)
  show "Mul sc a b = Inr NewNullValue" by (simp add: Mul_def n)
  show "Div sc a b = Inr NewNullValue" by (simp add: Div_def n)
  show "Mod sc a b = Inr NewNullValue" by (simp add: Mod_def n)
  show "BitwiseAnd sc a b = Inr NewNullValue" by (simp add: BitwiseAnd_def n)
  show "BitwiseOr sc a b = Inr NewNullValue" by (simp add: BitwiseOr_def n)
  show "BitwiseXor sc a b = Inr NewNullValue" by (simp add: BitwiseXor_def n)
next
  assume "eval op ctx = (v1, v2, None) \<and> (tp v1 = NullValue \<or> tp v2 = NullValue)"
  then show "cmpOp_Eval cmp op ctx = Some (NewNullValue, None)"
    by (auto simp: cmpOp_Eval_def nullLitteral_def)
qed

theorem null_propagation_witness:
  "Add no_strconv NewNullValue (NewBoolValue True) = Inr NewNullValue \<and>
   BitwiseXor no_strconv (NewIntegerValue 3) (NewBoolValue False) = Inr NewNullValue \<and>
   cmpOp_Eval no_comparisons
     \<lparr>eval = (\<lambda>_. (NewIntegerValue 1, NewNullValue, None)), Tok = LTE\<rparr> () =
     Some (NewNullValue, None)"
  using null_propagation [of NewNullValue "NewBoolValue True" no_strconv
      "\<lparr>eval = (\<lambda>_. (NewIntegerValue 1, NewNullValue, None)), Tok = LTE\<rparr>"
      "()" "NewIntegerValue 1" NewNullValue no_comparisons]
    null_propagation [of "NewIntegerValue 3" "NewBoolValue False" no_strconv
      "\<lparr>eval = (\<lambda>_. (NewIntegerValue 1, NewNullValue, None)), Tok = LTE\<rparr>"
      "()" "NewIntegerValue 1" NewNullValue no_comparisons]
  by (simp add: New_defs)

subsection \<open>Integer arithmetic\<close>

text \<open>
  C3. Subtraction negates its second operand before it adds. The negation of the least
  int64 is the least int64 again, so \<open>0 - MinInt64\<close>, whose exact value \<open>2^63\<close> does not fit
  in int64, is returned as the Integer \<open>MinInt64\<close> and not as a Double.
\<close>

theorem Sub_MinInt64_wraps:
  "Sub no_strconv (NewIntegerValue 0) (NewIntegerValue 0x8000000000000000) =
     Inr (NewIntegerValue 0x8000000000000000) \<and>
   sint (0x8000000000000000 :: 64 word) = - (2 ^ 63) \<and>
   sint (0 :: 64 word) - sint (0x8000000000000000 :: 64 word) = 2 ^ 63"
  by (simp add: Sub_def calculateValues_def calculateIntegers_def CastAsInteger_def
      integers_switch_def int64_less_def IsNumber_def New_defs ValueType_defs Let_def)

subsection \<open>Truthiness\<close>

lemma IsTruthy_constructors:
  "IsTruthy NewNullValue = Some (False, None)"
  "IsTruthy (NewBoolValue b) = Some (b, None)"
  "IsTruthy (NewIntegerValue i) = Some (i \<noteq> 0, None)"
  "IsTruthy (NewDoubleValue f) = Some (\<not> f64_is_zero f, None)"
  "IsTruthy (NewTextValue s) = Some (s \<noteq> [], None)"
  "IsTruthy (NewArrayValue a) = Some (a \<noteq> [], None)"
  "IsTruthy (NewDocumentValue d) = Some (d \<noteq> [], None)"
        apply (simp add: IsTruthy_def New_defs)
       apply (simp add: IsTruthy_def IsZeroValue_def New_defs ValueType_defs)
      apply (simp add: IsTruthy_def IsZeroValue_def New_defs ValueType_defs)
     apply (simp add: IsTruthy_def IsZeroValue_def New_defs ValueType_defs)
    apply (simp add: IsTruthy_def IsZeroValue_def New_defs ValueType_defs)
   apply (cases a; simp add: IsTruthy_def IsZeroValue_def New_defs ValueType_defs GetByIndex_def)
  apply (cases d; auto simp add: IsTruthy_def IsZeroValue_def New_defs ValueType_defs)
  done

lemma IsTruthy_blob: "IsTruthy (NewBlobValue x) = Some (True, None)"
  by (simp add: IsTruthy_def IsZeroValue_def New_defs ValueType_defs)

text \<open>
  C8. The empty blob is truthy: \<open>IsZeroValue\<close> compares the interface that holds the
  byte slice with nil, and an interface that holds a slice, even an empty one, is not nil.
\<close>

theorem IsTruthy_empty_blob:
  "IsTruthy (NewBlobValue []) = Some (True, None) \<and>
   IsZeroValue (NewBlobValue []) = Some (False, None)"
  by (simp add: IsTruthy_def IsZeroValue_def New_defs ValueType_defs)

subsection \<open>Cost of ranges\<close>

lemma foldl_add_step:
  fixes f :: "int \<Rightarrow> 'a \<Rightarrow> int"
  assumes "\<And>c r. f c r = c + f 0 r"
  shows "foldl f c rs = c + sum_list (map (f 0) rs)"
proof (induction rs arbitrary: c)
  case Nil
  show ?case by simp
next
  case (Cons r rs)
  have "foldl f c (r # rs) = foldl f (f c r) rs" by simp
  also have "\<dots> = f c r + sum_list (map (f 0) rs)" by (rule Cons.IH)
  also have "\<dots> = c + f 0 r + sum_list (map (f 0) rs)" using assms [of c r] by simp
  finally show ?case by simp
qed

lemma IndexRanges_Cost_step_add: "IndexRanges_Cost_step c r = c + IndexRanges_Cost_step 0 r"
  by (simp add: IndexRanges_Cost_step_def)

lemma ValueRanges_Cost_step_add: "ValueRanges_Cost_step c r = c + ValueRanges_Cost_step 0 r"
  by (simp add: ValueRanges_Cost_step_def Let_def)

lemma IndexRanges_Cost_single:
  "IndexRanges_Cost [r] =
     (if IExact r then 1
      else if 0 < Len (IMin r) \<and> 0 < Len (IMax r) then 50
      else if 0 < Len (IMin r) \<or> 0 < Len (IMax r) then 100
      else 200)"
  by (simp add: IndexRanges_Cost_def IndexRanges_Cost_step_def)

lemma IndexRanges_Cost_sum:
  "IndexRanges_Cost rs = sum_list (map (\<lambda>r. IndexRanges_Cost [r]) rs)"
  using foldl_add_step [of IndexRanges_Cost_step 0 rs, OF IndexRanges_Cost_step_add]
  by (simp add: IndexRanges_Cost_def)

lemma ValueRanges_Cost_single:
  "ValueRanges_Cost [r] =
     (if Exact r then 1
      else if \<not> IsZero (tp (Min r)) \<and> \<not> IsZero (tp (Max r)) then 250
      else if \<not> IsZero (tp (Min r)) \<or> \<not> IsZero (tp (Max r)) then 100
      else 200)"
  by (simp add: ValueRanges_Cost_def ValueRanges_Cost_step_def Let_def)

lemma ValueRanges_Cost_sum:
  "ValueRanges_Cost rs = sum_list (map (\<lambda>r. ValueRanges_Cost [r]) rs)"
  using foldl_add_step [of ValueRanges_Cost_step 0 rs, OF ValueRanges_Cost_step_add]
  by (simp add: ValueRanges_Cost_def)

text \<open>
  C4. \<open>ValueRanges.Cost\<close> adds 50 for a range with both bounds and then, with no
  \<open>continue\<close>, goes on to add the 200 of a range without bounds: a two-sided range costs
  250, more than a one-sided range (100) and more than an open one (200).
\<close>

theorem ValueRanges_Cost_two_sided:
  "ValueRanges_Cost [two_sided] = 250 \<and> ValueRanges_Cost [one_sided] = 100 \<and>
   ValueRanges_Cost [open_range] = 200 \<and> ValueRanges_Cost [exact_range] = 1"
  by (simp add: ValueRanges_Cost_def ValueRanges_Cost_step_def Let_def IsZero_def
      two_sided_def one_sided_def open_range_def exact_range_def New_defs ValueType_defs)

subsection \<open>Membership in a range\<close>

lemma bytes_Compare_simps:
  "bytes_Compare v m = 0 \<longleftrightarrow> v = m"
  "bytes_Compare v m \<le> 0 \<longleftrightarrow> v \<le> m"
  "bytes_Compare v m \<ge> 0 \<longleftrightarrow> m \<le> v"
  by (auto simp: bytes_Compare_def)

lemma ValueRange_IsInRange_exact:
  "Exact r \<Longrightarrow>
   ValueRange_IsInRange r v = in_range_spec True (Exclusive r) (encodedMin r) (encodedMax r) v"
  by (auto simp: ValueRange_IsInRange_def in_range_spec_def bytes_Compare_simps Let_def
      split: option.splits)

text \<open>
  What \<open>ValueRange.IsInRange\<close> leaves out is the test of the lower bound: together with
  it, the result is the stated semantics, for every range and every value.
\<close>

lemma ValueRange_IsInRange_with_lower_bound:
  "\<not> Exact r \<Longrightarrow>
   (ValueRange_IsInRange r v \<and> (case encodedMin r of None \<Rightarrow> True | Some m \<Rightarrow> m \<le> v)) =
     in_range_spec False (Exclusive r) (encodedMin r) (encodedMax r) v"
  by (auto simp: ValueRange_IsInRange_def in_range_spec_def bytes_Compare_simps Let_def
      split: option.splits)

text \<open>
  \<open>IndexRange.IsInRange\<close>, which has the test, follows the stated semantics on every
  range whose \<open>Arity\<close> does not exceed the arity of the index.
\<close>

lemma IndexRange_IsInRange_spec:
  "Arity r \<le> IndexArityMax r \<Longrightarrow>
   IndexRange_IsInRange r v spare =
     Some (in_range_spec (IExact r) (IExclusive r) (IencodedMin r) (IencodedMax r) v)"
  by (auto simp: IndexRange_IsInRange_def in_range_spec_def bytes_Compare_simps Let_def
      split: option.splits)

text \<open>
  C5. \<open>ValueRange.IsInRange\<close> compares the value with the lower bound only to exclude a
  value equal to it, and returns \<open>cmpMax \<le> 0\<close>: for the range that starts at the encoded
  minimum \<open>"5"\<close> and has no maximum, the value \<open>"1"\<close>, which is below the minimum, is in
  range, against the stated semantics.
\<close>

theorem ValueRange_IsInRange_below_min:
  "ValueRange_IsInRange lower_bounded [0x31] \<and>
   \<not> in_range_spec (Exact lower_bounded) (Exclusive lower_bounded)
        (encodedMin lower_bounded) (encodedMax lower_bounded) [0x31] \<and>
   encodedMin lower_bounded = Some [0x35] \<and> [0x31] < [0x35 :: 8 word]"
  by (simp add: ValueRange_IsInRange_def in_range_spec_def lower_bounded_def
      bytes_Compare_def Let_def)

subsection \<open>Appending a range\<close>

lemma ValueRanges_isDuplicate_iff:
  "ValueRanges_isDuplicate cmp r rng \<longleftrightarrow> (\<exists>e \<in> set r. ValueRange_IsEqual cmp e rng)"
  by (induction r) auto

lemma ValueRanges_Append_cases:
  "ValueRanges_Append cmp r rng =
     (if \<exists>e \<in> set r. ValueRange_IsEqual cmp e rng then r else r @ [rng])"
  by (simp add: ValueRanges_Append_def ValueRanges_isDuplicate_iff)

lemma ValueRanges_Append_idem:
  "ValueRange_IsEqual cmp rng rng \<Longrightarrow>
   ValueRanges_Append cmp (ValueRanges_Append cmp r rng) rng = ValueRanges_Append cmp r rng"
  by (auto simp: ValueRanges_Append_cases)

lemma IndexRanges_isDuplicate_Some:
  "\<forall>e \<in> set r. IndexRange_IsEqual vbeq e rng \<noteq> None \<Longrightarrow>
   IndexRanges_isDuplicate vbeq r rng = Some (\<exists>e \<in> set r. IndexRange_IsEqual vbeq e rng = Some True)"
  by (induction r) (auto split: option.splits bool.splits)

lemma IndexRanges_Append_cases:
  "\<forall>e \<in> set r. IndexRange_IsEqual vbeq e rng \<noteq> None \<Longrightarrow>
   IndexRanges_Append vbeq r rng =
     Some (if \<exists>e \<in> set r. IndexRange_IsEqual vbeq e rng = Some True then r else r @ [rng])"
  by (simp add: IndexRanges_Append_def IndexRanges_isDuplicate_Some)

text \<open>
  C10. \<open>IndexRange.IsEqual\<close> reads \<open>other.rangeTypes[i]\<close> for every index of
  \<open>r.rangeTypes\<close>. Appending a range that has not been encoded yet (no range types) to a
  list whose range has been encoded (one range type) reads index 0 of an empty slice:
  \<open>Append\<close> panics and returns no list.
\<close>

theorem IndexRanges_Append_panics:
  "IndexRanges_Append vbeq [encoded_index] fresh_index = None \<and>
   length (rangeTypes fresh_index) < length (rangeTypes encoded_index)"
  by (simp add: IndexRanges_Append_def IndexRange_IsEqual_def encoded_index_def fresh_index_def)

subsection \<open>Types of an index\<close>

lemma AddIndex_types_foldl:
  assumes "\<forall>p \<in> set paths. \<forall>fc. find (\<lambda>fc. Path_IsEqual (Path fc) p) fcs = Some fc \<longrightarrow> Type fc \<noteq> 0"
  shows "foldl (AddIndex_types_step fcs) acc paths = acc @ map (declared_type fcs) paths"
  using assms
proof (induction paths arbitrary: acc)
  case Nil
  show ?case by simp
next
  case (Cons p ps)
  have "AddIndex_types_step fcs acc p = acc @ [declared_type fcs p]"
    using Cons.prems by (auto simp: AddIndex_types_step_def declared_type_def split: option.splits)
  then show ?case using Cons by simp
qed

lemma AddIndex_types_aligned:
  "\<forall>p \<in> set paths. \<forall>fc. find (\<lambda>fc. Path_IsEqual (Path fc) p) fcs = Some fc \<longrightarrow> Type fc \<noteq> 0
   \<Longrightarrow> AddIndex_types fcs paths = map (declared_type fcs) paths"
  by (simp add: AddIndex_types_def AddIndex_types_foldl)

text \<open>
  C7. On a table whose constraint on \<open>a\<close> declares no type (\<open>a NOT NULL\<close>) and whose
  constraint on \<open>b\<close> declares Integer, \<open>AddIndex\<close> for the paths \<open>a, b\<close> succeeds and leaves
  the single type Integer: nothing is appended for \<open>a\<close>, the types are fewer than the
  paths, and the type at position 0 is the type of \<open>b\<close>.
\<close>

theorem AddIndex_untyped_constraint:
  "(case AddIndex name0 nameN cache_tu new_tx (index_on ''t'' ''idx'' [path_a, path_b]) of
      Some (Inr (c, tx, info)) \<Rightarrow>
        Paths info = [path_a, path_b] \<and> Types info = [IntegerValue] \<and>
        indexes c ''idx'' = Some info
    | _ \<Rightarrow> False)"
  by (simp add: AddIndex_def AddIndex_name_def index_on_def cache_tu_def table_t_def
      AddIndex_types_def AddIndex_types_step_def Path_IsEqual_def path_a_def path_b_def
      IntegerValue_def Let_def)

subsection \<open>Rollback of the catalog cache\<close>

text \<open>
  C1. \<open>updateTable\<close> does not check that the new name of a table is free. Renaming \<open>t\<close>
  to the name of the existing table \<open>u\<close> succeeds on the cache (the transaction then fails
  on the duplicate key of the catalog table), and the rollback hook deletes the entry of
  the new name: after the rollback the table \<open>u\<close> is missing from the cache.
\<close>

theorem rollback_rename_loses_table:
  "(case updateTable cache_tu new_tx ''t'' (rename_to ''u'') of
      Inr (c, tx, clone, newIndexes) \<Rightarrow>
        tables (Rollback tx c) ''u'' = None \<and> tables cache_tu ''u'' = Some table_u \<and>
        tables (Rollback tx c) ''t'' = Some table_t
    | Inl err \<Rightarrow> False)"
  by (simp add: updateTable_def rename_to_def cache_tu_def table_t_def table_u_def new_tx_def
      Rollback_def append_hook_def slice_at_def Let_def)

text \<open>
  The hook of \<open>DeleteTable\<close> restores the index list of the table from the indexes it met
  while ranging over the map of all indexes, not from the list it deleted: when the map is
  visited in another order, the list comes back in another order.
\<close>

lemma rollback_DeleteTable_order:
  "(case DeleteTable [''i2'', ''i1''] cache_t_indexed new_tx ''t'' of
      Inr (c, tx, ti, removedIndexes) \<Rightarrow>
        indexesPerTables (Rollback tx c) ''t'' =
          Some [index_on ''t'' ''i2'' [path_b], index_on ''t'' ''i1'' [path_a]] \<and>
        indexesPerTables cache_t_indexed ''t'' =
          Some [index_on ''t'' ''i1'' [path_a], index_on ''t'' ''i2'' [path_b]]
    | Inl err \<Rightarrow> False)"
  by (simp add: DeleteTable_def cache_t_indexed_def table_t_def new_tx_def index_on_def
      Rollback_def append_hook_def List.map_filter_def Let_def)

subsection \<open>Counting rows\<close>

lemma Aggregate_rows_wildcard:
  "Wildcard (Fn c) \<Longrightarrow>
   Aggregate_rows c envs = Inr (c\<lparr>Count := Count c + of_nat (length envs)\<rparr>)"
proof (induction envs arbitrary: c)
  case Nil
  show ?case by simp
next
  case (Cons env envs)
  have "Aggregate c env = Inr (c\<lparr>Count := Count c + 1\<rparr>)"
    using Cons.prems by (simp add: Aggregate_def)
  moreover have "Wildcard (Fn (c\<lparr>Count := Count c + 1\<rparr>))" using Cons.prems by simp
  ultimately show ?case using Cons.IH [of "c\<lparr>Count := Count c + 1\<rparr>"] by simp
qed

lemma Aggregate_expr:
  "\<not> Wildcard (Fn c) \<Longrightarrow>
   snd (Expr (Fn c) env) = None \<or> snd (Expr (Fn c) env) = Some ErrFieldNotFound \<Longrightarrow>
   Aggregate c env =
     Inr (if fst (Expr (Fn c) env) \<noteq> NullLiteral then c\<lparr>Count := Count c + 1\<rparr> else c)"
  by (cases "Expr (Fn c) env") (auto simp: Aggregate_def)

lemma Aggregate_rows_expr:
  "\<not> Wildcard (Fn c) \<Longrightarrow>
   \<forall>env \<in> set envs.
     snd (Expr (Fn c) env) = None \<or> snd (Expr (Fn c) env) = Some ErrFieldNotFound \<Longrightarrow>
   Aggregate_rows c envs =
     Inr (c\<lparr>Count := Count c +
       of_nat (length (filter (\<lambda>env. fst (Expr (Fn c) env) \<noteq> NullLiteral) envs))\<rparr>)"
proof (induction envs arbitrary: c)
  case Nil
  show ?case by simp
next
  case (Cons env envs)
  let ?c' = "if fst (Expr (Fn c) env) \<noteq> NullLiteral then c\<lparr>Count := Count c + 1\<rparr> else c"
  have step: "Aggregate c env = Inr ?c'"
    using Cons.prems by (simp add: Aggregate_expr)
  have fn: "Fn ?c' = Fn c" by simp
  have "Aggregate_rows ?c' envs =
      Inr (?c'\<lparr>Count := Count ?c' +
        of_nat (length (filter (\<lambda>env. fst (Expr (Fn ?c') env) \<noteq> NullLiteral) envs))\<rparr>)"
    by (rule Cons.IH) (use Cons.prems in \<open>simp_all only: fn list.set_intros(2) simp_thms\<close>, simp)
  then show ?case using step by (simp add: fn)
qed

lemma non_Null_iff:
  "(tp v = NullValue \<longrightarrow> V v = INil) \<Longrightarrow> v \<noteq> NullLiteral \<longleftrightarrow> tp v \<noteq> NullValue"
  by (cases v) (auto simp: NullLiteral_def NewNullValue_def)

lemma Path_Eval_missing:
  "GetValueFromDocument (NewDocumentValue d) p = Inl ErrFieldNotFound \<Longrightarrow>
   Path_Eval p (Some d) = (NullLiteral, Some ErrFieldNotFound)"
  by (simp add: Path_Eval_def)

text \<open>
  C9. A fresh aggregator with the wildcard counts every row of the stream. Without the
  wildcard, over a stream on which the expression fails with nothing but
  \<open>ErrFieldNotFound\<close>, it counts the rows on which the expression does not evaluate to
  Null; and when the expression is a path that the document of a row does not have, the
  row leaves the counter as it is. The counter is an int64.
\<close>

theorem CountAggregator_counts:
  "(Wildcard fn \<longrightarrow>
      Aggregate_rows (Aggregator fn) envs = Inr \<lparr>Fn = fn, Count = of_nat (length envs)\<rparr>) \<and>
   (\<not> Wildcard fn \<and>
    (\<forall>env \<in> set envs. snd (Expr fn env) = None \<or> snd (Expr fn env) = Some ErrFieldNotFound) \<longrightarrow>
      Aggregate_rows (Aggregator fn) envs =
        Inr \<lparr>Fn = fn,
             Count = of_nat (length (filter (\<lambda>env. fst (Expr fn env) \<noteq> NullLiteral) envs))\<rparr>) \<and>
   (\<not> Wildcard fn \<and> Expr fn = Path_Eval p \<and>
    GetValueFromDocument (NewDocumentValue d) p = Inl ErrFieldNotFound \<longrightarrow>
      Aggregate \<lparr>Fn = fn, Count = n\<rparr> (Some d) = Inr \<lparr>Fn = fn, Count = n\<rparr>)"
proof (intro conjI impI)
  assume "Wildcard fn"
  then show "Aggregate_rows (Aggregator fn) envs = Inr \<lparr>Fn = fn, Count = of_nat (length envs)\<rparr>"
    using Aggregate_rows_wildcard [of "Aggregator fn" envs] by (simp add: Aggregator_def)
next
  assume "\<not> Wildcard fn \<and>
    (\<forall>env \<in> set envs. snd (Expr fn env) = None \<or> snd (Expr fn env) = Some ErrFieldNotFound)"
  then show "Aggregate_rows (Aggregator fn) envs =
      Inr \<lparr>Fn = fn,
           Count = of_nat (length (filter (\<lambda>env. fst (Expr fn env) \<noteq> NullLiteral) envs))\<rparr>"
    using Aggregate_rows_expr [of "Aggregator fn" envs] by (simp add: Aggregator_def)
next
  assume h: "\<not> Wildcard fn \<and> Expr fn = Path_Eval p \<and>
    GetValueFromDocument (NewDocumentValue d) p = Inl ErrFieldNotFound"
  then have "Expr fn (Some d) = (NullLiteral, Some ErrFieldNotFound)"
    by (simp add: Path_Eval_missing)
  with h show "Aggregate \<lparr>Fn = fn, Count = n\<rparr> (Some d) = Inr \<lparr>Fn = fn, Count = n\<rparr>"
    by (simp add: Aggregate_def)
qed

theorem CountAggregator_counts_witness:
  "Aggregate_rows (Aggregator count_star) three_rows = Inr \<lparr>Fn = count_star, Count = 3\<rparr> \<and>
   Aggregate_rows (Aggregator count_a) three_rows = Inr \<lparr>Fn = count_a, Count = 1\<rparr> \<and>
   Aggregate \<lparr>Fn = count_a, Count = 1\<rparr> (Some [(''b'', NewIntegerValue 2)]) =
     Inr \<lparr>Fn = count_a, Count = 1\<rparr>"
  using CountAggregator_counts [of count_star three_rows path_a "[(''b'', NewIntegerValue 2)]" 1]
    CountAggregator_counts [of count_a three_rows path_a "[(''b'', NewIntegerValue 2)]" 1]
  by (simp add: count_star_def count_a_def three_rows_def Path_Eval_def path_a_def
      NullLiteral_def New_defs ValueType_defs)

subsection \<open>The resumable scan of UPDATE\<close>

lemma fill_buffer_total:
  "\<forall>d. upd d = Inr (f d) \<Longrightarrow> fill_buffer upd rows = (map (apsnd f) rows, None)"
  by (induction rows) auto

lemma Replace_mid:
  "k \<notin> fst ` set pre \<Longrightarrow> Replace (pre @ (k, old) # s) k d = Inr (pre @ (k, d) # s)"
  by (induction pre) auto

lemma replace_all_same:
  "distinct (map fst (pre @ s)) \<Longrightarrow>
   replace_all (pre @ s) (map (apsnd f) s) = (pre @ map (apsnd f) s, map fst s, None)"
proof (induction s arbitrary: pre)
  case Nil
  show ?case by simp
next
  case (Cons x s)
  obtain k d where x: "x = (k, d)" by (cases x)
  have k: "k \<notin> fst ` set pre" using Cons.prems x by auto
  have d: "distinct (map fst ((pre @ [(k, f d)]) @ s))" using Cons.prems x by auto
  show ?case
    using Cons.IH [OF d] Replace_mid [OF k, of d s "f d"] x by simp
qed

lemma Run_full_buffer:
  assumes len: "length xs = 99"
    and below: "\<forall>k \<in> set (map fst xs). k < kl"
    and dist: "distinct (map fst xs)"
    and w: "\<forall>d. w d"
    and upd: "\<forall>d. upd d = Inr (f d)"
  shows "Run w upd (xs @ [(kl, dl)]) =
           Some (map (apsnd f) xs @ [(kl, f (f dl))], map fst xs @ [kl, kl], None)"
proof -
  let ?s = "xs @ [(kl, dl)]"
  let ?s1 = "map (apsnd f) xs @ [(kl, f dl)]"
  have nin: "kl \<notin> fst ` set xs" using below by auto
  have d0: "distinct (map fst ([] @ ?s))" using dist nin by simp
  have r1: "replace_all ?s (map (apsnd f) ?s) = (?s1, map fst ?s, None)"
    using replace_all_same [OF d0, of f] by simp
  have seek: "Seek ?s1 (Some kl) = [(kl, f dl)]"
    using below by (auto simp: Seek_def dropWhile_append)
  have d1: "distinct (map fst (map (apsnd f) xs @ [(kl, f dl)]))"
    using dist nin by (simp add: comp_def)
  have r2: "replace_all ?s1 [(kl, f (f dl))] = (map (apsnd f) xs @ [(kl, f (f dl))], [kl], None)"
    using replace_all_same [OF d1, of f] by simp
  have sel1: "take updateBufferSize (filter (\<lambda>(key, d). w d) (Seek ?s None)) = ?s"
    using w len by (simp add: Seek_def updateBufferSize_def)
  have sel2: "take updateBufferSize (filter (\<lambda>(key, d). w d) (Seek ?s1 (Some kl))) = [(kl, f dl)]"
    using w by (simp add: seek updateBufferSize_def)
  have f1: "fill_buffer upd ?s = (map (apsnd f) ?s, None)"
    by (rule fill_buffer_total [OF upd])
  have f2: "fill_buffer upd [(kl, f dl)] = ([(kl, f (f dl))], None)"
    using fill_buffer_total [OF upd, of "[(kl, f dl)]"] by simp
  have l1: "\<not> length (map (apsnd f) ?s) < deleteBufferSize"
    using len by (simp add: deleteBufferSize_def)
  have last1: "fst (last (map (apsnd f) ?s)) = kl" by simp
  have step1: "Run_loop w upd \<lparr>rstore = ?s, curKey = None\<rparr> [] =
      Run_loop w upd \<lparr>rstore = ?s1, curKey = Some kl\<rparr> (map fst ?s)"
    apply (subst Run_loop.simps)
    apply (simp only: resumableIterator.simps sel1 f1 r1 prod.case option.case l1 if_False
        last1 append_Nil)
    done
  have step2: "Run_loop w upd \<lparr>rstore = ?s1, curKey = Some kl\<rparr> (map fst ?s) =
      Some (map (apsnd f) xs @ [(kl, f (f dl))], map fst ?s @ [kl], None)"
    apply (subst Run_loop.simps)
    apply (simp only: resumableIterator.simps sel2 f2 r2 prod.case option.case)
    apply (simp add: deleteBufferSize_def)
    done
  show ?thesis unfolding Run_def step1 step2 by simp
qed

lemma hundred_rows_split:
  "hundred_rows = map (\<lambda>i. ([word_of_nat i], 0)) [0..<99] @ [([99], 0)]"
proof -
  have "[0..<100] = [0..<99] @ [99]"
    using upt_Suc_append [of 0 99] by simp
  then show ?thesis by (simp add: hundred_rows_def)
qed

lemma keys_below:
  "\<forall>k \<in> set (map fst (map (\<lambda>i. ([word_of_nat i :: 8 word], 0::int)) [0..<99])). k < [99]"
  by (auto simp: word_less_nat_alt unat_of_nat)

lemma keys_distinct:
  "distinct (map fst (map (\<lambda>i. ([word_of_nat i :: 8 word], 0::int)) [0..<99]))"
proof -
  have "inj_on (\<lambda>i. [word_of_nat i :: 8 word]) {0..<99}"
  proof (rule inj_onI)
    fix x y :: nat
    assume "x \<in> {0..<99}" "y \<in> {0..<99}" "[word_of_nat x :: 8 word] = [word_of_nat y]"
    then have "unat (word_of_nat x :: 8 word) = unat (word_of_nat y :: 8 word)" by simp
    with \<open>x \<in> {0..<99}\<close> \<open>y \<in> {0..<99}\<close> show "x = y" by (simp add: unat_of_nat)
  qed
  then show ?thesis by (simp add: distinct_map comp_def)
qed


text \<open>
  C6. On a table of exactly 100 rows that all match, the first buffer holds the 100 rows
  and the iterator is resumed at the last key of the buffer itself: \<open>Seek\<close> lands on that
  row again, and \<open>Run\<close> replaces it a second time. With a SET clause that adds 1, the row
  of the last key ends at 2 and every other row at 1.
\<close>

theorem Run_replaces_last_key_twice:
  "Run (\<lambda>d. True) increment hundred_rows =
     Some (map (\<lambda>i. ([word_of_nat i], 1)) [0..<99] @ [([99], 2)],
           map (\<lambda>i. [word_of_nat i]) [0..<99] @ [[99], [99]], None)"
  using Run_full_buffer [of "map (\<lambda>i. ([word_of_nat i :: 8 word], 0::int)) [0..<99]" "[99]"
      "\<lambda>d. True" increment "\<lambda>d. d + 1" 0, OF _ keys_below keys_distinct]
  by (simp add: hundred_rows_split increment_def comp_def)

end
